theory Spec2Isabelle
  imports Main "HOL-Library.Sublist"
begin

section \<open>Python values used by the programs\<close>

text \<open>
  A Python \<open>str\<close> is modelled as a \<open>string\<close> whose characters are the code points
  below 256; a Python \<open>int\<close> is an \<open>int\<close>. The functions of this section are the
  built-ins the programs call: \<open>str(int)\<close>, \<open>sep.join\<close>, \<open>s.split(sep)\<close> with a
  one-character separator, \<open>s.strip()\<close>, and the truth value of an optional string.
\<close>

definition digit :: "nat \<Rightarrow> char" where
  "digit d = ''0123456789'' ! d"

fun str_nat :: "nat \<Rightarrow> string" where
  "str_nat n =
     (if n < 10 then [digit n]
      else str_nat (n div 10) @ [digit (n mod 10)])"

declare str_nat.simps [simp del]

definition str_int :: "int \<Rightarrow> string" where
  "str_int i = (if i < 0 then CHR ''-'' # str_nat (nat (- i)) else str_nat (nat i))"

fun str_join :: "string \<Rightarrow> string list \<Rightarrow> string" where
  "str_join sep [] = []"
| "str_join sep [x] = x"
| "str_join sep (x # y # ys) = x @ sep @ str_join sep (y # ys)"

fun str_split :: "char \<Rightarrow> string \<Rightarrow> string list" where
  "str_split sep [] = [[]]"
| "str_split sep (c # cs) =
     (if c = sep then [] # str_split sep cs
      else (case str_split sep cs of
              [] \<Rightarrow> [[c]]
            | p # ps \<Rightarrow> (c # p) # ps))"

definition isspace :: "char \<Rightarrow> bool" where
  "isspace c =
     (let n = of_char c :: nat
      in (9 \<le> n \<and> n \<le> 13) \<or> (28 \<le> n \<and> n \<le> 32) \<or> n = 133 \<or> n = 160)"

definition str_strip :: "string \<Rightarrow> string" where
  "str_strip s = rev (dropWhile isspace (rev (dropWhile isspace s)))"

text \<open>\<open>x or d\<close> and \<open>not x\<close> for \<open>x: str | None\<close>: \<open>None\<close> and \<open>""\<close> are false.\<close>

fun truthy :: "string option \<Rightarrow> bool" where
  "truthy None = False"
| "truthy (Some s) = (s \<noteq> [])"

section \<open>The Spotify server (spotify_mcp_server.py)\<close>

subsection \<open>Exceptions and API responses\<close>

text \<open>
  An exception raised inside a \<open>try\<close> block of the server is an instance of
  \<open>Exception\<close>: either spotipy's \<open>SpotifyException\<close>, of which the handler reads
  \<open>http_status\<close> and \<open>msg\<close>, or any other one, of which the handler reads \<open>str(e)\<close>.
\<close>

datatype py_exception =
    SpotifyException int string
  | OtherException string

definition IndexError :: py_exception where
  "IndexError = OtherException ''list index out of range''"

text \<open>\<open>KeyError(k)\<close>, whose \<open>str\<close> is the \<open>repr\<close> of the key.\<close>

definition KeyError :: "string \<Rightarrow> py_exception" where
  "KeyError k = OtherException ([CHR 0x27] @ k @ [CHR 0x27])"

text \<open>
  The responses of the Web API, with the keys the server reads. A key the server reads
  with \<open>.get\<close> and tests (\<open>results.get("tracks")\<close>), and a response it tests
  (\<open>not results\<close>), is an option, \<open>None\<close> standing for a missing, null or empty
  entry. \<open>preview_url\<close> is read with \<open>item.get('preview_url', 'N/A')\<close>, which tells
  a missing key from a null one. The recommendations are read with
  \<open>results['tracks']\<close>, which raises \<open>KeyError\<close> when the response has no such key:
  the entry is either missing or present, and a present one is null or a list.
\<close>

datatype 'a lookup = KeyMissing | Present 'a

record artist =
  artist_id :: string
  artist_name :: string
  artist_popularity :: int
  artist_followers_total :: int
  artist_genres :: "string list"
  artist_uri :: string

record album =
  album_name :: string

datatype preview = NoKey | PyNone | Url string

record track =
  track_name :: string
  track_artists :: "artist list"
  track_album :: album
  track_uri :: string
  track_id :: string
  track_preview_url :: preview
  track_popularity :: int

record 'a paging =
  items :: "'a list"

record search_result =
  sr_tracks :: "track paging option"
  sr_artists :: "artist paging option"

record top_tracks =
  tt_tracks :: "track list option"

record recommendations =
  rec_tracks :: "track list option lookup"

text \<open>
  Audio features carry floats. Their type \<open>'f\<close> and the three float operations the
  server uses (\<open>:.1f\<close>, \<open>:.2f\<close> and the true division by 1000) are parameters.
\<close>

record 'f audio_features =
  af_tempo :: 'f
  af_key :: int
  af_mode :: int
  af_time_signature :: int
  af_duration_ms :: int
  af_danceability :: 'f
  af_energy :: 'f
  af_speechiness :: 'f
  af_acousticness :: 'f
  af_instrumentalness :: 'f
  af_liveness :: 'f
  af_valence :: 'f
  af_loudness :: 'f

record 'f float_ops =
  fmt_1f :: "'f \<Rightarrow> string"
  fmt_2f :: "'f \<Rightarrow> string"
  div_1000 :: "int \<Rightarrow> 'f"

text \<open>
  The module-level client \<open>sp\<close>: each method either raises or returns a response.
  Every tool also returns the list of the calls it made on \<open>sp\<close>, in order, with the
  arguments it passed.
\<close>

record 'f spotify =
  sp_search :: "string \<Rightarrow> string \<Rightarrow> int \<Rightarrow> py_exception + search_result option"
  sp_artist :: "string \<Rightarrow> py_exception + artist option"
  sp_artist_top_tracks :: "string \<Rightarrow> py_exception + top_tracks option"
  sp_audio_features :: "string \<Rightarrow> py_exception + 'f audio_features option list option"
  sp_track :: "string \<Rightarrow> py_exception + track option"
  sp_recommendations :: "string list \<Rightarrow> int \<Rightarrow> py_exception + recommendations option"

datatype api_call =
    Search string string int
  | Artist string
  | ArtistTopTracks string
  | AudioFeatures string
  | Track string
  | Recommendations "string list" int

fun raises :: "'f spotify \<Rightarrow> api_call \<Rightarrow> bool" where
  "raises sp (Search q t l) = isl (sp_search sp q t l)"
| "raises sp (Artist a) = isl (sp_artist sp a)"
| "raises sp (ArtistTopTracks a) = isl (sp_artist_top_tracks sp a)"
| "raises sp (AudioFeatures t) = isl (sp_audio_features sp t)"
| "raises sp (Track t) = isl (sp_track sp t)"
| "raises sp (Recommendations ts l) = isl (sp_recommendations sp ts l)"

text \<open>The two \<open>except\<close> clauses that end every tool.\<close>

fun except_handler :: "py_exception \<Rightarrow> string" where
  "except_handler (SpotifyException http_status msg) =
     ''Spotify API error: '' @ msg @ '' (Status: '' @ str_int http_status @ '')''"
| "except_handler (OtherException s) = ''Unexpected error: '' @ s"

definition try_except :: "py_exception + string \<Rightarrow> string" where
  "try_except r = (case r of Inl e \<Rightarrow> except_handler e | Inr s \<Rightarrow> s)"

subsection \<open>search_tracks\<close>

definition artist_names :: "track \<Rightarrow> string" where
  "artist_names item = str_join '', '' (map artist_name (track_artists item))"

fun fmt_preview :: "preview \<Rightarrow> string" where
  "fmt_preview NoKey = ''N/A''"
| "fmt_preview PyNone = ''None''"
| "fmt_preview (Url u) = u"

definition search_entry :: "nat \<times> track \<Rightarrow> string" where
  "search_entry p =
     (case p of (i, t) \<Rightarrow>
        str_nat i @ ''. '' @ track_name t @ '' by '' @ artist_names t @ ''\<newline>''
        @ ''   Album: '' @ album_name (track_album t) @ ''\<newline>''
        @ ''   Track ID: '' @ track_id t @ ''\<newline>''
        @ ''   URI: '' @ track_uri t @ ''\<newline>''
        @ ''   Preview: '' @ fmt_preview (track_preview_url t) @ ''\<newline>\<newline>'')"

definition track_items :: "search_result option \<Rightarrow> track list" where
  "track_items results =
     (case results of
        None \<Rightarrow> []
      | Some r \<Rightarrow> (case sr_tracks r of None \<Rightarrow> [] | Some p \<Rightarrow> items p))"

definition search_tracks :: "'f spotify \<Rightarrow> string \<Rightarrow> int \<Rightarrow> string \<times> api_call list" where
  "search_tracks sp query limit =
     (try_except
        (case sp_search sp query ''track'' (min limit 50) of
           Inl e \<Rightarrow> Inl e
         | Inr results \<Rightarrow>
             if track_items results = []
             then Inr (''No results found for track name: '' @ [CHR 0x27] @ query @ [CHR 0x27])
             else
               let tracks = track_items results
               in Inr (foldl (\<lambda>output p. output @ search_entry p)
                         (''Found '' @ str_nat (length tracks) @ '' tracks:\<newline>\<newline>'')
                         (List.enumerate 1 tracks))),
      [Search query ''track'' (min limit 50)])"

subsection \<open>get_artist_info\<close>

text \<open>The format \<open>{n:,}\<close>: decimal digits in groups of three, separated by commas.\<close>

fun group3 :: "string \<Rightarrow> string" where
  "group3 (a # b # c # d # ds) = a # b # c # CHR '','' # group3 (d # ds)"
| "group3 ds = ds"

definition fmt_thousands :: "int \<Rightarrow> string" where
  "fmt_thousands i =
     (if i < 0 then ''-'' else []) @ rev (group3 (rev (str_nat (nat \<bar>i\<bar>))))"

definition artist_items :: "search_result option \<Rightarrow> artist list" where
  "artist_items results =
     (case results of
        None \<Rightarrow> []
      | Some r \<Rightarrow> (case sr_artists r of None \<Rightarrow> [] | Some p \<Rightarrow> items p))"

definition top_track_list :: "top_tracks option \<Rightarrow> track list" where
  "top_track_list response =
     (case response of
        None \<Rightarrow> []
      | Some tt \<Rightarrow> (case tt_tracks tt of None \<Rightarrow> [] | Some ts \<Rightarrow> ts))"

definition top_track_entry :: "nat \<times> track \<Rightarrow> string" where
  "top_track_entry p =
     (case p of (i, t) \<Rightarrow>
        str_nat i @ ''. '' @ track_name t @ '' - '' @ album_name (track_album t) @ ''\<newline>'')"

definition artist_report :: "artist \<Rightarrow> track list \<Rightarrow> string" where
  "artist_report artist_details tracks =
     foldl (\<lambda>output p. output @ top_track_entry p)
       (''Artist: '' @ artist_name artist_details @ ''\<newline>''
        @ ''Popularity: '' @ str_int (artist_popularity artist_details) @ ''/100\<newline>''
        @ ''Followers: '' @ fmt_thousands (artist_followers_total artist_details) @ ''\<newline>''
        @ ''Genres: ''
        @ (if artist_genres artist_details \<noteq> []
           then str_join '', '' (artist_genres artist_details) else ''N/A'')
        @ ''\<newline>''
        @ ''Spotify URI: '' @ artist_uri artist_details @ ''\<newline>\<newline>''
        @ ''Top Tracks:\<newline>'')
       (List.enumerate 1 (take 5 tracks))"

definition get_artist_info_try ::
  "'f spotify \<Rightarrow> string \<Rightarrow> (py_exception + string) \<times> api_call list" where
  "get_artist_info_try sp name =
     (case sp_search sp name ''artist'' 1 of
        Inl e \<Rightarrow> (Inl e, [Search name ''artist'' 1])
      | Inr results \<Rightarrow>
          (case artist_items results of
             [] \<Rightarrow>
               (Inr (''No artist found with name: '' @ [CHR 0x27] @ name @ [CHR 0x27]),
                [Search name ''artist'' 1])
           | artist # _ \<Rightarrow>
               (case sp_artist sp (artist_id artist) of
                  Inl e \<Rightarrow> (Inl e, [Search name ''artist'' 1, Artist (artist_id artist)])
                | Inr None \<Rightarrow>
                    (Inr (''Could not retrieve details for artist: ''
                          @ [CHR 0x27] @ name @ [CHR 0x27]),
                     [Search name ''artist'' 1, Artist (artist_id artist)])
                | Inr (Some artist_details) \<Rightarrow>
                    (case sp_artist_top_tracks sp (artist_id artist) of
                       Inl e \<Rightarrow> Inl e
                     | Inr response \<Rightarrow>
                         (case top_track_list response of
                            [] \<Rightarrow>
                              Inr (''Could not retrieve top tracks for artist: ''
                                   @ [CHR 0x27] @ name @ [CHR 0x27])
                          | t # ts \<Rightarrow> Inr (artist_report artist_details (t # ts))),
                     [Search name ''artist'' 1, Artist (artist_id artist),
                      ArtistTopTracks (artist_id artist)]))))"

definition get_artist_info :: "'f spotify \<Rightarrow> string \<Rightarrow> string \<times> api_call list" where
  "get_artist_info sp name =
     (case get_artist_info_try sp name of (r, calls) \<Rightarrow> (try_except r, calls))"

subsection \<open>get_audio_features\<close>

definition features_report :: "'f float_ops \<Rightarrow> 'f audio_features \<Rightarrow> string" where
  "features_report fl features =
     ''Tempo: '' @ fmt_1f fl (af_tempo features) @ '' BPM\<newline>''
     @ ''Key: '' @ str_int (af_key features) @ '' (0=C, 1=C#, 2=D, etc.)\<newline>''
     @ ''Mode: '' @ (if af_mode features = 1 then ''Major'' else ''Minor'') @ ''\<newline>''
     @ ''Time Signature: '' @ str_int (af_time_signature features) @ ''/4\<newline>''
     @ ''Duration: '' @ fmt_1f fl (div_1000 fl (af_duration_ms features))
     @ '' seconds\<newline>\<newline>''
     @ ''Musical Characteristics (0.0 to 1.0):\<newline>''
     @ ''  Danceability: '' @ fmt_2f fl (af_danceability features) @ ''\<newline>''
     @ ''  Energy: '' @ fmt_2f fl (af_energy features) @ ''\<newline>''
     @ ''  Speechiness: '' @ fmt_2f fl (af_speechiness features) @ ''\<newline>''
     @ ''  Acousticness: '' @ fmt_2f fl (af_acousticness features) @ ''\<newline>''
     @ ''  Instrumentalness: '' @ fmt_2f fl (af_instrumentalness features) @ ''\<newline>''
     @ ''  Liveness: '' @ fmt_2f fl (af_liveness features) @ ''\<newline>''
     @ ''  Valence (positivity): '' @ fmt_2f fl (af_valence features) @ ''\<newline>''
     @ ''  Loudness: '' @ fmt_1f fl (af_loudness features) @ '' dB\<newline>''"

text \<open>\<open>features_response[0]\<close> where the response is a non-empty list, else \<open>None\<close>.\<close>

definition first_features :: "'f audio_features option list option \<Rightarrow> 'f audio_features option" where
  "first_features features_response =
     (case features_response of
        None \<Rightarrow> None
      | Some [] \<Rightarrow> None
      | Some (f # _) \<Rightarrow> f)"

definition get_audio_features_try ::
  "'f float_ops \<Rightarrow> 'f spotify \<Rightarrow> string \<Rightarrow> (py_exception + string) \<times> api_call list" where
  "get_audio_features_try fl sp tid =
     (case sp_audio_features sp tid of
        Inl e \<Rightarrow> (Inl e, [AudioFeatures tid])
      | Inr features_response \<Rightarrow>
          (case first_features features_response of
             None \<Rightarrow>
               (Inr (''No audio features found for track ID: '' @ [CHR 0x27] @ tid @ [CHR 0x27]),
                [AudioFeatures tid])
           | Some features \<Rightarrow>
               ((case sp_track sp tid of
                   Inl e \<Rightarrow> Inl e
                 | Inr None \<Rightarrow>
                     Inr (''Could not retrieve track information for ID: ''
                          @ [CHR 0x27] @ tid @ [CHR 0x27])
                 | Inr (Some t) \<Rightarrow>
                     (case track_artists t of
                        [] \<Rightarrow> Inl IndexError
                      | a # _ \<Rightarrow>
                          Inr (''Audio Features for: '' @ track_name t @ '' by ''
                               @ artist_name a @ ''\<newline>\<newline>''
                               @ features_report fl features))),
                [AudioFeatures tid, Track tid])))"

definition get_audio_features ::
  "'f float_ops \<Rightarrow> 'f spotify \<Rightarrow> string \<Rightarrow> string \<times> api_call list" where
  "get_audio_features fl sp tid =
     (case get_audio_features_try fl sp tid of (r, calls) \<Rightarrow> (try_except r, calls))"

subsection \<open>get_recommendations\<close>

definition track_ids :: "string \<Rightarrow> string list" where
  "track_ids seed_track_ids = take 5 (map str_strip (str_split CHR '','' seed_track_ids))"

definition recommendation_entry :: "nat \<times> track \<Rightarrow> string" where
  "recommendation_entry p =
     (case p of (i, t) \<Rightarrow>
        str_nat i @ ''. '' @ track_name t @ '' by '' @ artist_names t @ ''\<newline>''
        @ ''   Album: '' @ album_name (track_album t) @ ''\<newline>''
        @ ''   Track ID: '' @ track_id t @ ''\<newline>''
        @ ''   Popularity: '' @ str_int (track_popularity t) @ ''/100\<newline>\<newline>'')"

text \<open>
  The tracks behind \<open>not results or not results['tracks']\<close>: none when the response
  is \<open>None\<close> or empty, a \<open>KeyError\<close> when a non-empty response has no \<open>tracks\<close> key,
  none when the entry is null, else the list.
\<close>

definition recommended :: "recommendations option \<Rightarrow> py_exception + track list" where
  "recommended results =
     (case results of
        None \<Rightarrow> Inr []
      | Some r \<Rightarrow>
          (case rec_tracks r of
             KeyMissing \<Rightarrow> Inl (KeyError ''tracks'')
           | Present None \<Rightarrow> Inr []
           | Present (Some ts) \<Rightarrow> Inr ts))"

definition get_recommendations ::
  "'f spotify \<Rightarrow> string \<Rightarrow> int \<Rightarrow> string \<times> api_call list" where
  "get_recommendations sp seed_track_ids limit =
     (if track_ids seed_track_ids = [] then (''Please provide at least one track ID'', [])
      else
        (try_except
           (case sp_recommendations sp (track_ids seed_track_ids) (min limit 100) of
              Inl e \<Rightarrow> Inl e
            | Inr results \<Rightarrow>
                (case recommended results of
                   Inl e \<Rightarrow> Inl e
                 | Inr [] \<Rightarrow> Inr ''No recommendations found for the given tracks''
                 | Inr (t # ts) \<Rightarrow>
                     Inr (foldl (\<lambda>output p. output @ recommendation_entry p)
                            (''Recommendations based on ''
                             @ str_nat (length (track_ids seed_track_ids))
                             @ '' seed track(s):\<newline>\<newline>'')
                            (List.enumerate 1 (t # ts))))),
         [Recommendations (track_ids seed_track_ids) (min limit 100)]))"

section \<open>The LangChain client (spotify_langchain_client.py)\<close>

subsection \<open>Validated records\<close>

text \<open>
  An exception in the client is either the validation error a pydantic constructor
  raises, carrying the message of the \<open>ValueError\<close> of the validator, or any other
  exception, carrying its \<open>str(e)\<close>. The report pydantic prints for a validation error
  embeds that message; it is abridged here to one line.
\<close>

datatype client_exception =
    ValidationError string
  | RuntimeException string

fun str_exception :: "client_exception \<Rightarrow> string" where
  "str_exception (ValidationError msg) = ''1 validation error: Value error, '' @ msg"
| "str_exception (RuntimeException s) = s"

text \<open>
  A keyword argument of a constructor is either left out, and the field takes its
  default without running the field's validator, or given, and the validator runs on it.
\<close>

datatype 'a arg = Omitted | Given 'a

record MCPToolResponse =
  success :: bool
  content :: "string option"
  error :: "string option"

text \<open>
  \<open>validate_content_or_error(v, info)\<close>, with \<open>info.data['success']\<close> and
  \<open>info.field_name\<close> as arguments.
\<close>

definition validate_content_or_error ::
  "string option \<Rightarrow> bool \<Rightarrow> string \<Rightarrow> client_exception + string option" where
  "validate_content_or_error v info_success field_name =
     (if info_success \<and> \<not> truthy v \<and> field_name = ''content''
      then Inl (ValidationError ''Successful response must have content'')
      else if \<not> info_success \<and> \<not> truthy v \<and> field_name = ''error''
      then Inl (ValidationError ''Failed response must have error message'')
      else Inr v)"

text \<open>
  \<open>MCPToolResponse(success=..., content=..., error=...)\<close>: the fields are validated in
  the order of their declaration, \<open>success\<close> first.
\<close>

definition make_MCPToolResponse ::
  "bool arg \<Rightarrow> string option arg \<Rightarrow> string option arg
   \<Rightarrow> client_exception + MCPToolResponse" where
  "make_MCPToolResponse s c e =
     (let flag = (case s of Omitted \<Rightarrow> True | Given b \<Rightarrow> b)
      in case (case c of Omitted \<Rightarrow> Inr None
                       | Given v \<Rightarrow> validate_content_or_error v flag ''content'') of
           Inl err \<Rightarrow> Inl err
         | Inr cv \<Rightarrow>
             (case (case e of Omitted \<Rightarrow> Inr None
                            | Given v \<Rightarrow> validate_content_or_error v flag ''error'') of
                Inl err \<Rightarrow> Inl err
              | Inr ev \<Rightarrow> Inr \<lparr>success = flag, content = cv, error = ev\<rparr>))"

record 'v MCPToolCall =
  tool_name :: string
  arguments :: "(string \<times> 'v) list"

definition make_MCPToolCall ::
  "string \<Rightarrow> (string \<times> 'v) list \<Rightarrow> client_exception + 'v MCPToolCall" where
  "make_MCPToolCall name kwargs =
     (if name = [] \<or> str_strip name = []
      then Inl (ValidationError ''Tool name cannot be empty'')
      else Inr \<lparr>tool_name = name, arguments = kwargs\<rparr>)"

text \<open>
  The tool metadata the server declares, and \<open>MCPToolSchema\<close>. The input schema is a
  dictionary; of it the client reads only \<open>.get('properties', {}).keys()\<close>, to print
  the parameters: the \<open>properties\<close> entry is missing, or a dictionary with its keys,
  or a value of another type (null, a list, ...), given by the name of its type, on
  which \<open>.keys()\<close> raises \<open>AttributeError\<close>.
\<close>

datatype properties = NoProperties | PropertiesDict "string list" | PropertiesOther string

record mcp_tool =
  mt_name :: string
  mt_description :: "string option"
  mt_inputSchema :: "properties option"

record MCPToolSchema =
  name :: string
  description :: "string option"
  input_schema :: properties

definition isalnum_char :: "char \<Rightarrow> bool" where
  "isalnum_char c =
     (let n = of_char c :: nat
      in (48 \<le> n \<and> n \<le> 57) \<or> (65 \<le> n \<and> n \<le> 90) \<or> (97 \<le> n \<and> n \<le> 122)
         \<or> n = 170 \<or> n = 178 \<or> n = 179 \<or> n = 181 \<or> n = 185 \<or> n = 186
         \<or> (188 \<le> n \<and> n \<le> 190) \<or> (192 \<le> n \<and> n \<le> 214)
         \<or> (216 \<le> n \<and> n \<le> 246) \<or> (248 \<le> n \<and> n \<le> 255))"

definition isalnum :: "string \<Rightarrow> bool" where
  "isalnum s = (s \<noteq> [] \<and> list_all isalnum_char s)"

definition make_MCPToolSchema ::
  "string \<Rightarrow> string option \<Rightarrow> properties \<Rightarrow> client_exception + MCPToolSchema" where
  "make_MCPToolSchema n d schema =
     (if length n < 1
      then Inl (ValidationError ''String should have at least 1 character'')
      else if \<not> isalnum (filter (\<lambda>c. c \<noteq> CHR ''-'') (filter (\<lambda>c. c \<noteq> CHR ''_'') n))
      then Inl (ValidationError
                 (''Tool name must be alphanumeric with underscores/hyphens: '' @ n))
      else Inr \<lparr>name = n, description = d, input_schema = schema\<rparr>)"

datatype args_schema =
    SpotifySearchArgs
  | SpotifyPlaylistArgs
  | SpotifyPlaybackArgs
  | SpotifyGetInfoArgs
  | SpotifyQueueArgs

definition TOOL_SCHEMAS :: "string \<rightharpoonup> args_schema" where
  "TOOL_SCHEMAS =
     map_of
       [(''SpotifySearch'', SpotifySearchArgs),
        (''SpotifyPlaylist'', SpotifyPlaylistArgs),
        (''SpotifyPlayback'', SpotifyPlaybackArgs),
        (''SpotifyGetInfo'', SpotifyGetInfoArgs),
        (''SpotifyQueue'', SpotifyQueueArgs)]"

subsection \<open>The connection to the server\<close>

text \<open>
  \<open>StdioServerParameters\<close>, and what a session with the server does: entering
  \<open>stdio_client\<close> and \<open>ClientSession\<close>, \<open>initialize\<close>, \<open>list_tools\<close> and \<open>call_tool\<close>
  either raise or return, and so does leaving the two \<open>async with\<close> blocks. A result of
  \<open>call_tool\<close> is absent or carries a list of content items, each given by its \<open>str\<close>,
  which is all the client reads of it. The functions below also return the events of
  the session in order.
\<close>

record server_params =
  command :: string
  args :: "string list"
  env :: "(string \<times> string) list"

record call_result =
  result_content :: "string list"

record 'v mcp_server =
  srv_connect :: "server_params \<Rightarrow> client_exception option"
  srv_initialize :: "client_exception option"
  srv_list_tools :: "client_exception + mcp_tool list"
  srv_call_tool :: "string \<Rightarrow> (string \<times> 'v) list \<Rightarrow> client_exception + call_result option"
  srv_close :: "client_exception option"

datatype 'v event =
    Connect server_params
  | Initialize
  | CallTool string "(string \<times> 'v) list"
  | Disconnect

text \<open>
  Leaving the \<open>async with\<close> blocks: the connection is closed whether the body returned
  or raised, and an exception raised while closing replaces the outcome of the body.
\<close>

definition leave :: "'v mcp_server \<Rightarrow> client_exception + 'a \<Rightarrow> client_exception + 'a" where
  "leave srv r = (case srv_close srv of Some e \<Rightarrow> Inl e | None \<Rightarrow> r)"

subsection \<open>call_mcp_tool\<close>

text \<open>
  The body of the \<open>try\<close>. \<open>content = str(result.content[0])\<close> is a \<open>str\<close>, which has
  neither a \<open>text\<close> nor a \<open>data\<close> attribute, so of the three branches on the content
  type the last is taken, and it leaves \<open>content\<close> as it is.
\<close>

definition call_mcp_tool_try ::
  "'v mcp_server \<Rightarrow> 'v MCPToolCall \<Rightarrow> server_params
   \<Rightarrow> (client_exception + MCPToolResponse) \<times> 'v event list" where
  "call_mcp_tool_try srv tool_call params =
     (case srv_connect srv params of
        Some e \<Rightarrow> (Inl e, [Connect params])
      | None \<Rightarrow>
          (case srv_initialize srv of
             Some e \<Rightarrow> (leave srv (Inl e), [Connect params, Initialize, Disconnect])
           | None \<Rightarrow>
               (leave srv
                  (case srv_call_tool srv (tool_name tool_call) (arguments tool_call) of
                     Inl e \<Rightarrow> Inl e
                   | Inr result \<Rightarrow>
                       (case (case result of None \<Rightarrow> [] | Some r \<Rightarrow> result_content r) of
                          [] \<Rightarrow>
                            make_MCPToolResponse (Given False) Omitted
                              (Given (Some ''No content in response''))
                        | item # _ \<Rightarrow>
                            make_MCPToolResponse (Given True) (Given (Some item)) Omitted)),
                [Connect params, Initialize,
                 CallTool (tool_name tool_call) (arguments tool_call), Disconnect])))"

text \<open>
  \<open>except Exception as e: return MCPToolResponse(success=False, error=str(e))\<close>. The
  constructor in the handler validates too, and what it raises leaves the function.
\<close>

definition call_mcp_tool ::
  "'v mcp_server \<Rightarrow> 'v MCPToolCall \<Rightarrow> server_params
   \<Rightarrow> (client_exception + MCPToolResponse) \<times> 'v event list" where
  "call_mcp_tool srv tool_call params =
     (case call_mcp_tool_try srv tool_call params of
        (Inr response, events) \<Rightarrow> (Inr response, events)
      | (Inl e, events) \<Rightarrow>
          (make_MCPToolResponse (Given False) Omitted (Given (Some (str_exception e))),
           events))"

subsection \<open>discover_mcp_tools\<close>

text \<open>The wrapper \<open>make_tool_function(tool_name, params)\<close> returns.\<close>

definition call_tool_wrapper ::
  "string \<Rightarrow> server_params \<Rightarrow> 'v mcp_server \<Rightarrow> (string \<times> 'v) list
   \<Rightarrow> (client_exception + string) \<times> 'v event list" where
  "call_tool_wrapper tname params srv kwargs =
     (case make_MCPToolCall tname kwargs of
        Inl e \<Rightarrow> (Inl e, [])
      | Inr tool_call \<Rightarrow>
          (case call_mcp_tool srv tool_call params of
             (Inl e, events) \<Rightarrow> (Inl e, events)
           | (Inr response, events) \<Rightarrow>
               (Inr (if success response
                     then (case content response of
                             None \<Rightarrow> ''No content''
                           | Some s \<Rightarrow> if s = [] then ''No content'' else s)
                     else ''Error: '' @ (case error response of
                                          None \<Rightarrow> ''None''
                                        | Some s \<Rightarrow> s)),
                events)))"

definition make_tool_function ::
  "string \<Rightarrow> server_params \<Rightarrow> 'v mcp_server \<Rightarrow> (string \<times> 'v) list
   \<Rightarrow> (client_exception + string) \<times> 'v event list" where
  "make_tool_function tname params = call_tool_wrapper tname params"

record 'v StructuredTool =
  st_coroutine ::
    "'v mcp_server \<Rightarrow> (string \<times> 'v) list \<Rightarrow> (client_exception + string) \<times> 'v event list"
  st_name :: string
  st_description :: string
  st_args_schema :: args_schema

text \<open>
  \<open>list(validated_tool.input_schema.get('properties', {}).keys())\<close>, evaluated for the
  third \<open>print\<close> inside the \<open>try\<close>.
\<close>

fun parameter_names :: "properties \<Rightarrow> client_exception + string list" where
  "parameter_names NoProperties = Inr []"
| "parameter_names (PropertiesDict ks) = Inr ks"
| "parameter_names (PropertiesOther ty) =
     Inl (RuntimeException
            ([CHR 0x27] @ ty @ [CHR 0x27] @ '' object has no attribute ''
             @ [CHR 0x27] @ ''keys'' @ [CHR 0x27]))"

text \<open>
  The loop over \<open>mcp_tools_response.tools\<close>. A tool for which the \<open>try\<close> raises, in
  the validation of \<open>MCPToolSchema\<close> or in the prints after it, is skipped; a tool
  without an entry in \<open>TOOL_SCHEMAS\<close> is skipped; and the loop goes on with the next
  tool in both cases.
\<close>

fun discover_loop :: "server_params \<Rightarrow> mcp_tool list \<Rightarrow> 'v StructuredTool list" where
  "discover_loop params [] = []"
| "discover_loop params (t # ts) =
     (case (case make_MCPToolSchema (mt_name t) (mt_description t)
                   (case mt_inputSchema t of None \<Rightarrow> NoProperties | Some s \<Rightarrow> s) of
              Inl e \<Rightarrow> Inl e
            | Inr validated_tool \<Rightarrow>
                (case parameter_names (input_schema validated_tool) of
                   Inl e \<Rightarrow> Inl e
                 | Inr parameters \<Rightarrow> Inr validated_tool)) of
        Inl e \<Rightarrow> discover_loop params ts
      | Inr validated_tool \<Rightarrow>
          (case TOOL_SCHEMAS (name validated_tool) of
             None \<Rightarrow> discover_loop params ts
           | Some schema \<Rightarrow>
               \<lparr>st_coroutine = make_tool_function (name validated_tool) params,
                st_name = name validated_tool,
                st_description =
                  (if truthy (description validated_tool)
                   then the (description validated_tool)
                   else ''Tool: '' @ name validated_tool),
                st_args_schema = schema\<rparr>
               # discover_loop params ts))"

text \<open>The declared tools for which listing the parameters does not raise.\<close>

definition parameters_listable :: "mcp_tool \<Rightarrow> bool" where
  "parameters_listable t =
     (case mt_inputSchema t of Some (PropertiesOther ty) \<Rightarrow> False | _ \<Rightarrow> True)"

record MCPServerConfig =
  server_path :: string
  config_command :: string

definition stdio_server_parameters ::
  "MCPServerConfig \<Rightarrow> (string \<times> string) list \<Rightarrow> server_params" where
  "stdio_server_parameters server_config environ =
     \<lparr>command = config_command server_config,
      args = [''--directory'', server_path server_config, ''run'', ''spotify-mcp''],
      env = filter (\<lambda>kv. fst kv \<noteq> ''VIRTUAL_ENV'') environ\<rparr>"

definition discover_mcp_tools ::
  "MCPServerConfig \<Rightarrow> (string \<times> string) list \<Rightarrow> 'v mcp_server
   \<Rightarrow> client_exception + 'v StructuredTool list \<times> server_params" where
  "discover_mcp_tools server_config environ srv =
     (let params = stdio_server_parameters server_config environ
      in case srv_connect srv params of
           Some e \<Rightarrow> Inl e
         | None \<Rightarrow>
             (case srv_initialize srv of
                Some e \<Rightarrow> leave srv (Inl e)
              | None \<Rightarrow>
                  leave srv
                    (case srv_list_tools srv of
                       Inl e \<Rightarrow> Inl e
                     | Inr tools \<Rightarrow> Inr (discover_loop params tools, params))))"

section \<open>The lifespan tutorial (lifespan_example.py)\<close>

text \<open>
  The mock \<open>Database\<close> has no state; \<open>connect\<close> returns a new object and \<open>disconnect\<close>
  does nothing. To tell when they are invoked, both are recorded in the list of events
  the lifespan returns, around the events of serving.
\<close>

datatype Database = Database

record AppContext =
  db :: Database

datatype 'a lifespan_event =
    DbConnect
  | Serving 'a
  | DbDisconnect

definition Database_query :: "Database \<Rightarrow> string" where
  "Database_query d = ''Query result''"

definition query_db :: "AppContext \<Rightarrow> string" where
  "query_db lifespan_context = Database_query (db lifespan_context)"

text \<open>
  \<open>app_lifespan\<close> is a generator under \<open>asynccontextmanager\<close>: the code before \<open>yield\<close>
  runs on entry, the server runs with the yielded context, and what ends serving is
  sent into the generator at the \<open>yield\<close>: nothing on a normal shutdown, the exception
  when one was raised. \<open>serve\<close> is the server's run: given the context it returns the
  exception that ended it, if any, and the events of serving. The \<open>finally\<close> block runs
  in both cases, and the exception then goes on to the caller.
\<close>

definition app_lifespan ::
  "(AppContext \<Rightarrow> 'e option \<times> 'a list) \<Rightarrow> 'e option \<times> 'a lifespan_event list" where
  "app_lifespan serve =
     (let database = Database
      in case serve \<lparr>db = database\<rparr> of
           (None, served) \<Rightarrow> (None, [DbConnect] @ map Serving served @ [DbDisconnect])
         | (Some e, served) \<Rightarrow> (Some e, [DbConnect] @ map Serving served @ [DbDisconnect]))"

section \<open>Stub clients for the examples\<close>

text \<open>
  Concrete clients on which the properties below are instantiated: one whose every call
  raises, one whose every call returns an empty result, one that answers the track
  search for \<open>Bohemian Rhapsody\<close> with limit 1 by a single track, one whose every
  call raises an exception that spells out the arguments it received, and one whose
  responses hold no \<open>tracks\<close> key.
\<close>

definition stub_floats :: "unit float_ops" where
  "stub_floats = \<lparr>fmt_1f = (\<lambda>_. ''0.0''), fmt_2f = (\<lambda>_. ''0.00''), div_1000 = (\<lambda>_. ())\<rparr>"

definition failing_sp :: "unit spotify" where
  "failing_sp =
     \<lparr>sp_search = (\<lambda>q t l. Inl (SpotifyException 429 ''rate limited'')),
      sp_artist = (\<lambda>a. Inl (SpotifyException 429 ''rate limited'')),
      sp_artist_top_tracks = (\<lambda>a. Inl (SpotifyException 429 ''rate limited'')),
      sp_audio_features = (\<lambda>t. Inl (OtherException ''connection reset'')),
      sp_track = (\<lambda>t. Inl (OtherException ''connection reset'')),
      sp_recommendations = (\<lambda>ts l. Inl (OtherException ''connection reset''))\<rparr>"

definition empty_sp :: "unit spotify" where
  "empty_sp =
     \<lparr>sp_search = (\<lambda>q t l. Inr (Some \<lparr>sr_tracks = Some \<lparr>items = []\<rparr>, sr_artists = None\<rparr>)),
      sp_artist = (\<lambda>a. Inr None),
      sp_artist_top_tracks = (\<lambda>a. Inr None),
      sp_audio_features = (\<lambda>t. Inr (Some [None])),
      sp_track = (\<lambda>t. Inr None),
      sp_recommendations = (\<lambda>ts l. Inr (Some \<lparr>rec_tracks = Present (Some [])\<rparr>))\<rparr>"

definition bohemian :: track where
  "bohemian =
     \<lparr>track_name = ''Bohemian Rhapsody'',
      track_artists =
        [\<lparr>artist_id = ''1dfeR4HaWDbWqFHLkxsg1d'', artist_name = ''Queen'', artist_popularity = 89,
          artist_followers_total = 51234567, artist_genres = [''rock''],
          artist_uri = ''spotify:artist:1dfeR4HaWDbWqFHLkxsg1d''\<rparr>],
      track_album = \<lparr>album_name = ''A Night At The Opera''\<rparr>,
      track_uri = ''spotify:track:4u7EnebtmKWzUH433cf5Qv'',
      track_id = ''4u7EnebtmKWzUH433cf5Qv'',
      track_preview_url = PyNone,
      track_popularity = 85\<rparr>"

definition one_track_sp :: "unit spotify" where
  "one_track_sp =
     \<lparr>sp_search = (\<lambda>q t l.
        if q = ''Bohemian Rhapsody'' \<and> t = ''track'' \<and> l = 1
        then Inr (Some \<lparr>sr_tracks = Some \<lparr>items = [bohemian]\<rparr>, sr_artists = None\<rparr>)
        else Inl (OtherException ''unexpected request'')),
      sp_artist = (\<lambda>a. Inr None),
      sp_artist_top_tracks = (\<lambda>a. Inr None),
      sp_audio_features = (\<lambda>t. Inr None),
      sp_track = (\<lambda>t. Inr None),
      sp_recommendations = (\<lambda>ts l. Inr None)\<rparr>"

definition echo_sp :: "unit spotify" where
  "echo_sp =
     \<lparr>sp_search = (\<lambda>q t l.
        Inl (OtherException (''search('' @ q @ '', '' @ t @ '', '' @ str_int l @ '')''))),
      sp_artist = (\<lambda>a. Inl (OtherException (''artist('' @ a @ '')''))),
      sp_artist_top_tracks = (\<lambda>a. Inl (OtherException (''artist_top_tracks('' @ a @ '')''))),
      sp_audio_features = (\<lambda>t. Inl (OtherException (''audio_features('' @ t @ '')''))),
      sp_track = (\<lambda>t. Inl (OtherException (''track('' @ t @ '')''))),
      sp_recommendations = (\<lambda>ts l.
        Inl (OtherException
               (''recommendations('' @ concat (map (\<lambda>t. ''<'' @ t @ ''>'') ts) @ '', ''
                @ str_int l @ '')'')))\<rparr>"

definition keyless_sp :: "unit spotify" where
  "keyless_sp =
     \<lparr>sp_search = (\<lambda>q t l. Inr (Some \<lparr>sr_tracks = None, sr_artists = None\<rparr>)),
      sp_artist = (\<lambda>a. Inr None),
      sp_artist_top_tracks = (\<lambda>a. Inr (Some \<lparr>tt_tracks = None\<rparr>)),
      sp_audio_features = (\<lambda>t. Inr None),
      sp_track = (\<lambda>t. Inr None),
      sp_recommendations = (\<lambda>ts l. Inr (Some \<lparr>rec_tracks = KeyMissing\<rparr>))\<rparr>"

text \<open>
  A catalog of three declared tools, of which \<open>SpotifyLyrics\<close> has no entry in
  \<open>TOOL_SCHEMAS\<close>; a declared tool \<open>SpotifyPlayback\<close> whose input schema holds
  \<open>"properties": null\<close>; servers that list them and answer every call; and a server
  the connection to which fails with an exception whose \<open>str\<close> is empty, as that of
  \<open>TimeoutError()\<close> is.
\<close>

definition search_tool :: mcp_tool where
  "search_tool =
     \<lparr>mt_name = ''SpotifySearch'', mt_description = Some ''Search Spotify'',
      mt_inputSchema = Some (PropertiesDict [''query'', ''qtype'', ''limit''])\<rparr>"

definition lyrics_tool :: mcp_tool where
  "lyrics_tool =
     \<lparr>mt_name = ''SpotifyLyrics'', mt_description = None, mt_inputSchema = None\<rparr>"

definition queue_tool :: mcp_tool where
  "queue_tool =
     \<lparr>mt_name = ''SpotifyQueue'', mt_description = None,
      mt_inputSchema = Some (PropertiesDict [''action'', ''track_id''])\<rparr>"

definition playback_tool :: mcp_tool where
  "playback_tool =
     \<lparr>mt_name = ''SpotifyPlayback'', mt_description = Some ''Control playback'',
      mt_inputSchema = Some (PropertiesOther ''NoneType'')\<rparr>"

definition example_config :: MCPServerConfig where
  "example_config =
     \<lparr>server_path = ''./example-client-spotify/spotify-mcp'', config_command = ''uv''\<rparr>"

definition catalog_srv :: "unit mcp_server" where
  "catalog_srv =
     \<lparr>srv_connect = (\<lambda>p. None),
      srv_initialize = None,
      srv_list_tools = Inr [search_tool, lyrics_tool, queue_tool],
      srv_call_tool = (\<lambda>n kw. Inr (Some \<lparr>result_content = [''type=text text=ok'']\<rparr>)),
      srv_close = None\<rparr>"

definition null_properties_srv :: "unit mcp_server" where
  "null_properties_srv =
     \<lparr>srv_connect = (\<lambda>p. None),
      srv_initialize = None,
      srv_list_tools = Inr [search_tool, playback_tool, queue_tool],
      srv_call_tool = (\<lambda>n kw. Inr (Some \<lparr>result_content = [''type=text text=ok'']\<rparr>)),
      srv_close = None\<rparr>"

definition silent_failure_srv :: "unit mcp_server" where
  "silent_failure_srv =
     \<lparr>srv_connect = (\<lambda>p. Some (RuntimeException [])),
      srv_initialize = None,
      srv_list_tools = Inr [search_tool],
      srv_call_tool = (\<lambda>n kw. Inr None),
      srv_close = None\<rparr>"

section \<open>Lemmas about the built-ins and the server\<close>

lemma foldl_append_acc:
  "foldl (\<lambda>output p. output @ f p) init xs = init @ concat (map f xs)"
  by (induction xs arbitrary: init) simp_all

lemma str_split_not_Nil: "str_split sep s \<noteq> []"
  by (induction s) (auto split: list.splits)

lemma str_join_push: "str_join sep ((c # p) # ps) = c # str_join sep (p # ps)"
  by (cases ps) simp_all

lemma str_join_Nil_Cons: "ps \<noteq> [] \<Longrightarrow> str_join sep ([] # ps) = sep @ str_join sep ps"
  by (cases ps) simp_all

lemma str_split_join: "str_join [sep] (str_split sep s) = s"
proof (induction s)
  case Nil
  then show ?case by simp
next
  case (Cons c cs)
  show ?case
  proof (cases "c = sep")
    case True
    then show ?thesis using Cons by (simp add: str_join_Nil_Cons str_split_not_Nil)
  next
    case False
    then show ?thesis using Cons
      by (cases "str_split sep cs") (simp_all add: str_split_not_Nil str_join_push)
  qed
qed

lemma sublist_prepend: "sublist x ys \<Longrightarrow> sublist x (zs @ ys)"
  unfolding sublist_def by (metis append.assoc)

lemma str_split_no_sep: "p \<in> set (str_split sep s) \<Longrightarrow> sep \<notin> set p"
  by (induction s arbitrary: p) (auto split: if_splits list.splits)

lemma str_split_no_sep_id: "sep \<notin> set s \<Longrightarrow> str_split sep s = [s]"
  by (induction s) (auto split: list.splits)

lemma track_ids_not_Nil: "track_ids seed \<noteq> []"
  by (simp add: track_ids_def str_split_not_Nil)

lemma sublist_error_handler: "sublist ''error'' (except_handler e)"
proof (cases e)
  case (SpotifyException st msg)
  have "sublist ''error'' (''Spotify API '' @ ''error'' @ ('': '' @ msg @ '' (Status: '' @ str_int st @ '')''))"
    by (rule sublist_appendI)
  then show ?thesis using SpotifyException by simp
next
  case (OtherException s)
  have "sublist ''error'' (''Unexpected '' @ ''error'' @ ('': '' @ s))"
    by (rule sublist_appendI)
  then show ?thesis using OtherException by simp
qed

lemma sublist_str_join: "x \<in> set xs \<Longrightarrow> sublist x (str_join sep xs)"
proof (induction sep xs rule: str_join.induct)
  case (1 sep)
  then show ?case by simp
next
  case (2 sep y)
  then show ?case by simp
next
  case (3 sep a b ys)
  show ?case
  proof (cases "x = a")
    case True
    then show ?thesis by simp
  next
    case False
    with 3 have "sublist x (str_join sep (b # ys))" by simp
    then have "sublist x ((a @ sep) @ str_join sep (b # ys))"
      by (rule sublist_prepend)
    then show ?thesis by simp
  qed
qed

lemma str_strip_spaces: "\<forall>c \<in> set s. isspace c \<Longrightarrow> str_strip s = []"
  by (auto simp: str_strip_def dest: set_dropWhileD)

lemma comma_not_space: "\<not> isspace CHR '',''"
  by (simp add: isspace_def)

lemma track_ids_blank: "\<forall>c \<in> set s. isspace c \<Longrightarrow> track_ids s = [[]]"
proof -
  assume h: "\<forall>c \<in> set s. isspace c"
  then have "CHR '','' \<notin> set s" using comma_not_space by blast
  then have "str_split CHR '','' s = [s]" by (rule str_split_no_sep_id)
  then show ?thesis using h by (simp add: track_ids_def str_strip_spaces)
qed

lemma except_handler_not_prompt:
  "except_handler e \<noteq> ''Please provide at least one track ID''"
  by (cases e) simp_all

lemma except_handler_not_Nil: "except_handler e \<noteq> []"
  by (cases e) simp_all

lemma tools_never_return_empty:
  "fst (search_tracks sp query limit) \<noteq> []
   \<and> fst (get_artist_info sp wanted) \<noteq> []
   \<and> fst (get_audio_features fl sp tid) \<noteq> []
   \<and> fst (get_recommendations sp seeds limit') \<noteq> []"
proof (intro conjI)
  show "fst (search_tracks sp query limit) \<noteq> []"
    by (auto simp: search_tracks_def try_except_def foldl_append_acc except_handler_not_Nil Let_def
        split: sum.splits)
  show "fst (get_artist_info sp wanted) \<noteq> []"
    by (auto simp: get_artist_info_def get_artist_info_try_def try_except_def artist_report_def
        foldl_append_acc except_handler_not_Nil
        split: sum.splits list.splits option.splits)
  show "fst (get_audio_features fl sp tid) \<noteq> []"
    by (auto simp: get_audio_features_def get_audio_features_try_def try_except_def
        except_handler_not_Nil split: sum.splits list.splits option.splits)
  show "fst (get_recommendations sp seeds limit') \<noteq> []"
    by (auto simp: get_recommendations_def try_except_def foldl_append_acc
        except_handler_not_Nil split: sum.splits list.splits)
qed

section \<open>Lemmas about the client\<close>

lemma TOOL_SCHEMAS_keys:
  "TOOL_SCHEMAS n = Some s \<Longrightarrow>
   n \<in> {''SpotifySearch'', ''SpotifyPlaylist'', ''SpotifyPlayback'', ''SpotifyGetInfo'',
        ''SpotifyQueue''}"
  by (simp add: TOOL_SCHEMAS_def split: if_splits)

lemma matched_name_validates:
  "TOOL_SCHEMAS n = Some s \<Longrightarrow>
   make_MCPToolSchema n d schema = Inr \<lparr>name = n, description = d, input_schema = schema\<rparr>"
  using TOOL_SCHEMAS_keys [of n s]
  by (auto simp: make_MCPToolSchema_def isalnum_def isalnum_char_def)

lemma parameters_listable_iff:
  "parameters_listable t
     = (\<exists>ks. parameter_names (case mt_inputSchema t of None \<Rightarrow> NoProperties | Some s \<Rightarrow> s)
              = Inr ks)"
  by (cases "mt_inputSchema t"; cases "the (mt_inputSchema t)")
     (simp_all add: parameters_listable_def)

lemma discover_loop_names:
  "map st_name (discover_loop params tools)
     = map mt_name
         (filter (\<lambda>t. TOOL_SCHEMAS (mt_name t) \<noteq> None \<and> parameters_listable t) tools)"
proof (induction tools)
  case Nil
  then show ?case by simp
next
  case (Cons t ts)
  show ?case
  proof (cases "TOOL_SCHEMAS (mt_name t)")
    case None
    then show ?thesis using Cons
      by (auto simp: make_MCPToolSchema_def split: sum.splits if_splits)
  next
    case (Some s)
    show ?thesis
    proof (cases "parameters_listable t")
      case True
      then show ?thesis using Some Cons
        by (auto simp: matched_name_validates parameters_listable_iff)
    next
      case False
      then show ?thesis using Some Cons
        by (auto simp: matched_name_validates parameters_listable_iff split: sum.splits)
    qed
  qed
qed

lemma discover_loop_matched:
  "lt \<in> set (discover_loop params tools) \<Longrightarrow>
   TOOL_SCHEMAS (st_name lt) = Some (st_args_schema lt)
   \<and> st_coroutine lt = make_tool_function (st_name lt) params"
proof (induction tools)
  case Nil
  then show ?case by simp
next
  case (Cons t ts)
  then show ?case
    by (auto simp: make_MCPToolSchema_def split: sum.splits if_splits option.splits)
qed

text \<open>
  What the validator does enforce when both fields are given: the field selected by the
  flag is present and not empty.
\<close>

lemma validated_response_fields:
  "make_MCPToolResponse s (Given c) (Given e) = Inr r \<Longrightarrow>
   (success r \<longrightarrow> truthy (content r)) \<and> (\<not> success r \<longrightarrow> truthy (error r))"
  by (auto simp: make_MCPToolResponse_def validate_content_or_error_def Let_def
      split: arg.splits if_splits sum.splits)

text \<open>
  Whenever \<open>call_mcp_tool\<close> returns a response for a matched tool, the wrapper returns
  the content of a successful response and \<open>Error: \<close> followed by the error message
  of a failed one; the fallbacks \<open>No content\<close> and \<open>None\<close> are never shown, since a
  response built by \<open>call_mcp_tool\<close> carries the field its flag selects.
\<close>

lemma call_tool_wrapper_translates:
  "TOOL_SCHEMAS tname \<noteq> None \<Longrightarrow>
   call_mcp_tool srv \<lparr>tool_name = tname, arguments = kwargs\<rparr> params = (Inr r, events) \<Longrightarrow>
   call_tool_wrapper tname params srv kwargs
     = (Inr (if success r then the (content r) else ''Error: '' @ the (error r)), events)
   \<and> (success r \<longrightarrow> truthy (content r)) \<and> (\<not> success r \<longrightarrow> truthy (error r))"
proof -
  assume m: "TOOL_SCHEMAS tname \<noteq> None"
    and r: "call_mcp_tool srv \<lparr>tool_name = tname, arguments = kwargs\<rparr> params = (Inr r, events)"
  from m obtain s where "TOOL_SCHEMAS tname = Some s" by auto
  then have "tname \<in> {''SpotifySearch'', ''SpotifyPlaylist'', ''SpotifyPlayback'',
      ''SpotifyGetInfo'', ''SpotifyQueue''}" by (rule TOOL_SCHEMAS_keys)
  then have call: "make_MCPToolCall tname kwargs = Inr \<lparr>tool_name = tname, arguments = kwargs\<rparr>"
    by (auto simp: make_MCPToolCall_def str_strip_def isspace_def)
  have fields: "(success r \<longrightarrow> truthy (content r)) \<and> (\<not> success r \<longrightarrow> truthy (error r))"
    using r
    by (auto simp: call_mcp_tool_def call_mcp_tool_try_def leave_def make_MCPToolResponse_def
        validate_content_or_error_def
        split: option.splits sum.splits list.splits if_splits prod.splits)
  show ?thesis
    using call r fields
    by (cases "content r"; cases "error r") (auto simp: call_tool_wrapper_def)
qed

section \<open>Properties of the Spotify server\<close>

text \<open>
  C2. For each of the four tools and every input: if a call the tool made on the client
  raised (a \<open>SpotifyException\<close> or any other exception), the tool returns a string
  that contains \<open>error\<close>. A tool is a total function into strings: both \<open>except\<close>
  clauses return, so no exception reaches the caller.
\<close>

theorem tools_catch_api_exceptions:
  "((\<exists>c \<in> set (snd (search_tracks sp query limit)). raises sp c)
      \<longrightarrow> sublist ''error'' (fst (search_tracks sp query limit)))
   \<and> ((\<exists>c \<in> set (snd (get_artist_info sp wanted)). raises sp c)
      \<longrightarrow> sublist ''error'' (fst (get_artist_info sp wanted)))
   \<and> ((\<exists>c \<in> set (snd (get_audio_features fl sp tid)). raises sp c)
      \<longrightarrow> sublist ''error'' (fst (get_audio_features fl sp tid)))
   \<and> ((\<exists>c \<in> set (snd (get_recommendations sp seeds limit')). raises sp c)
      \<longrightarrow> sublist ''error'' (fst (get_recommendations sp seeds limit')))"
proof (intro conjI impI)
  assume "\<exists>c \<in> set (snd (search_tracks sp query limit)). raises sp c"
  then show "sublist ''error'' (fst (search_tracks sp query limit))"
    by (auto simp: search_tracks_def try_except_def sublist_error_handler isl_def)
next
  assume "\<exists>c \<in> set (snd (get_artist_info sp wanted)). raises sp c"
  then show "sublist ''error'' (fst (get_artist_info sp wanted))"
    by (auto simp: get_artist_info_def get_artist_info_try_def try_except_def
        sublist_error_handler isl_def split: sum.splits list.splits option.splits)
next
  assume "\<exists>c \<in> set (snd (get_audio_features fl sp tid)). raises sp c"
  then show "sublist ''error'' (fst (get_audio_features fl sp tid))"
    by (auto simp: get_audio_features_def get_audio_features_try_def try_except_def
        sublist_error_handler isl_def split: sum.splits list.splits option.splits)
next
  assume "\<exists>c \<in> set (snd (get_recommendations sp seeds limit')). raises sp c"
  then show "sublist ''error'' (fst (get_recommendations sp seeds limit'))"
    by (auto simp: get_recommendations_def try_except_def
        sublist_error_handler isl_def split: if_splits)
qed

theorem tools_catch_api_exceptions_witness:
  "raises failing_sp (Search ''q'' ''track'' 10)
   \<and> fst (search_tracks failing_sp ''q'' 10) = ''Spotify API error: rate limited (Status: 429)''
   \<and> sublist ''error'' (fst (search_tracks failing_sp ''q'' 10))
   \<and> raises failing_sp (Search ''Queen'' ''artist'' 1)
   \<and> sublist ''error'' (fst (get_artist_info failing_sp ''Queen''))
   \<and> raises failing_sp (AudioFeatures ''abc'')
   \<and> fst (get_audio_features stub_floats failing_sp ''abc'') = ''Unexpected error: connection reset''
   \<and> sublist ''error'' (fst (get_audio_features stub_floats failing_sp ''abc''))
   \<and> raises failing_sp (Recommendations [''abc''] 10)
   \<and> sublist ''error'' (fst (get_recommendations failing_sp ''abc'' 10))"
  using tools_catch_api_exceptions [of failing_sp "''q''" 10 "''Queen''" stub_floats "''abc''" "''abc''" 10]
  by (simp add: failing_sp_def search_tracks_def get_artist_info_def get_artist_info_try_def
      get_audio_features_def get_audio_features_try_def get_recommendations_def
      try_except_def track_ids_def str_strip_def isspace_def str_int_def str_nat.simps digit_def)

text \<open>
  The branches that report an empty or absent result: no response, no
  \<open>tracks\<close>/\<open>artists\<close> entry of a search, an empty list, a null features entry, no
  artist details, no track, and recommendations whose \<open>tracks\<close> entry is null or
  empty. Each returns its descriptive message, and no tool ever returns the empty
  string.
\<close>

lemma empty_result_messages:
  "(sp_search sp query ''track'' (min limit 50) = Inr results \<and> track_items results = []
      \<longrightarrow> fst (search_tracks sp query limit)
          = ''No results found for track name: '' @ [CHR 0x27] @ query @ [CHR 0x27])
   \<and> (sp_search sp wanted ''artist'' 1 = Inr found \<and> artist_items found = []
      \<longrightarrow> fst (get_artist_info sp wanted)
          = ''No artist found with name: '' @ [CHR 0x27] @ wanted @ [CHR 0x27])
   \<and> (sp_search sp wanted ''artist'' 1 = Inr found \<and> artist_items found = a # others
        \<and> sp_artist sp (artist_id a) = Inr None
      \<longrightarrow> fst (get_artist_info sp wanted)
          = ''Could not retrieve details for artist: '' @ [CHR 0x27] @ wanted @ [CHR 0x27])
   \<and> (sp_search sp wanted ''artist'' 1 = Inr found \<and> artist_items found = a # others
        \<and> sp_artist sp (artist_id a) = Inr (Some details)
        \<and> sp_artist_top_tracks sp (artist_id a) = Inr tops \<and> top_track_list tops = []
      \<longrightarrow> fst (get_artist_info sp wanted)
          = ''Could not retrieve top tracks for artist: '' @ [CHR 0x27] @ wanted @ [CHR 0x27])
   \<and> (sp_audio_features sp tid = Inr features_response
        \<and> first_features features_response = None
      \<longrightarrow> fst (get_audio_features fl sp tid)
          = ''No audio features found for track ID: '' @ [CHR 0x27] @ tid @ [CHR 0x27])
   \<and> (sp_audio_features sp tid = Inr features_response
        \<and> first_features features_response = Some features \<and> sp_track sp tid = Inr None
      \<longrightarrow> fst (get_audio_features fl sp tid)
          = ''Could not retrieve track information for ID: '' @ [CHR 0x27] @ tid @ [CHR 0x27])
   \<and> (sp_recommendations sp (track_ids seeds) (min limit' 100) = Inr recs
        \<and> recommended recs = Inr []
      \<longrightarrow> fst (get_recommendations sp seeds limit')
          = ''No recommendations found for the given tracks'')
   \<and> fst (search_tracks sp query limit) \<noteq> []
   \<and> fst (get_artist_info sp wanted) \<noteq> []
   \<and> fst (get_audio_features fl sp tid) \<noteq> []
   \<and> fst (get_recommendations sp seeds limit') \<noteq> []"
proof (intro conjI impI)
  show "fst (search_tracks sp query limit)
          = ''No results found for track name: '' @ [CHR 0x27] @ query @ [CHR 0x27]"
    if "sp_search sp query ''track'' (min limit 50) = Inr results \<and> track_items results = []"
    using that by (simp add: search_tracks_def try_except_def)
  show "fst (get_artist_info sp wanted)
          = ''No artist found with name: '' @ [CHR 0x27] @ wanted @ [CHR 0x27]"
    if "sp_search sp wanted ''artist'' 1 = Inr found \<and> artist_items found = []"
    using that by (simp add: get_artist_info_def get_artist_info_try_def try_except_def)
  show "fst (get_artist_info sp wanted)
          = ''Could not retrieve details for artist: '' @ [CHR 0x27] @ wanted @ [CHR 0x27]"
    if "sp_search sp wanted ''artist'' 1 = Inr found \<and> artist_items found = a # others
        \<and> sp_artist sp (artist_id a) = Inr None"
    using that by (simp add: get_artist_info_def get_artist_info_try_def try_except_def)
  show "fst (get_artist_info sp wanted)
          = ''Could not retrieve top tracks for artist: '' @ [CHR 0x27] @ wanted @ [CHR 0x27]"
    if "sp_search sp wanted ''artist'' 1 = Inr found \<and> artist_items found = a # others
        \<and> sp_artist sp (artist_id a) = Inr (Some details)
        \<and> sp_artist_top_tracks sp (artist_id a) = Inr tops \<and> top_track_list tops = []"
    using that by (simp add: get_artist_info_def get_artist_info_try_def try_except_def)
  show "fst (get_audio_features fl sp tid)
          = ''No audio features found for track ID: '' @ [CHR 0x27] @ tid @ [CHR 0x27]"
    if "sp_audio_features sp tid = Inr features_response
        \<and> first_features features_response = None"
    using that by (simp add: get_audio_features_def get_audio_features_try_def try_except_def)
  show "fst (get_audio_features fl sp tid)
          = ''Could not retrieve track information for ID: '' @ [CHR 0x27] @ tid @ [CHR 0x27]"
    if "sp_audio_features sp tid = Inr features_response
        \<and> first_features features_response = Some features \<and> sp_track sp tid = Inr None"
    using that by (simp add: get_audio_features_def get_audio_features_try_def try_except_def)
  show "fst (get_recommendations sp seeds limit')
          = ''No recommendations found for the given tracks''"
    if "sp_recommendations sp (track_ids seeds) (min limit' 100) = Inr recs
        \<and> recommended recs = Inr []"
    using that by (simp add: get_recommendations_def try_except_def track_ids_not_Nil)
  show "fst (search_tracks sp query limit) \<noteq> []"
    using tools_never_return_empty by blast
  show "fst (get_artist_info sp wanted) \<noteq> []"
    using tools_never_return_empty by blast
  show "fst (get_audio_features fl sp tid) \<noteq> []"
    using tools_never_return_empty by blast
  show "fst (get_recommendations sp seeds limit') \<noteq> []"
    using tools_never_return_empty by blast
qed

lemma empty_result_messages_example:
  "sp_search empty_sp ''zzz'' ''track'' (min 10 50) = Inr (Some \<lparr>sr_tracks = Some \<lparr>items = []\<rparr>, sr_artists = None\<rparr>)
   \<and> track_items (Some \<lparr>sr_tracks = Some \<lparr>items = []\<rparr>, sr_artists = None\<rparr>) = []
   \<and> fst (search_tracks empty_sp ''zzz'' 10) = ''No results found for track name: 'zzz'' @ [CHR 0x27]
   \<and> artist_items (Some \<lparr>sr_tracks = Some \<lparr>items = []\<rparr>, sr_artists = None\<rparr>) = []
   \<and> fst (get_artist_info empty_sp ''zzz'') = ''No artist found with name: 'zzz'' @ [CHR 0x27]
   \<and> sp_audio_features empty_sp ''zzz'' = Inr (Some [None])
   \<and> first_features (Some [None :: unit audio_features option]) = None
   \<and> fst (get_audio_features stub_floats empty_sp ''zzz'') = ''No audio features found for track ID: 'zzz'' @ [CHR 0x27]
   \<and> sp_recommendations empty_sp (track_ids ''zzz'') (min 10 100)
       = Inr (Some \<lparr>rec_tracks = Present (Some [])\<rparr>)
   \<and> recommended (Some \<lparr>rec_tracks = Present (Some [])\<rparr>) = Inr []
   \<and> fst (get_recommendations empty_sp ''zzz'' 10) = ''No recommendations found for the given tracks''"
  using empty_result_messages [of empty_sp "''zzz''" 10
      "Some \<lparr>sr_tracks = Some \<lparr>items = []\<rparr>, sr_artists = None\<rparr>" "''zzz''"
      "Some \<lparr>sr_tracks = Some \<lparr>items = []\<rparr>, sr_artists = None\<rparr>" _ _ _ _ "''zzz''"
      "Some [None]" stub_floats _ "''zzz''" 10 "Some \<lparr>rec_tracks = Present (Some [])\<rparr>"]
  by (simp add: empty_sp_def track_items_def artist_items_def first_features_def recommended_def)

text \<open>
  C3. The claim is that every tool answers an empty or absent result set with a
  descriptive not-found message. \<open>get_recommendations\<close> reads the result with
  \<open>results['tracks']\<close>, where the other tools read theirs with \<open>.get\<close>: when a
  non-empty response holds no \<open>tracks\<close> key, the \<open>KeyError\<close> is caught by the last
  handler and the tool returns \<open>Unexpected error: 'tracks'\<close> instead of
  \<open>No recommendations found for the given tracks\<close>. On search responses with no
  \<open>tracks\<close> or \<open>artists\<close> entry, \<open>search_tracks\<close> and \<open>get_artist_info\<close> return
  their not-found messages.
\<close>

theorem recommendations_missing_key_unreported:
  "sp_recommendations keyless_sp (track_ids ''4u7EnebtmKWzUH433cf5Qv'') (min 10 100)
     = Inr (Some \<lparr>rec_tracks = KeyMissing\<rparr>)
   \<and> fst (get_recommendations keyless_sp ''4u7EnebtmKWzUH433cf5Qv'' 10)
     = ''Unexpected error: '' @ [CHR 0x27] @ ''tracks'' @ [CHR 0x27]
   \<and> fst (get_recommendations keyless_sp ''4u7EnebtmKWzUH433cf5Qv'' 10)
     \<noteq> ''No recommendations found for the given tracks''
   \<and> fst (search_tracks keyless_sp ''zzz'' 10)
     = ''No results found for track name: 'zzz'' @ [CHR 0x27]
   \<and> fst (get_artist_info keyless_sp ''zzz'')
     = ''No artist found with name: 'zzz'' @ [CHR 0x27]"
  by (simp add: keyless_sp_def get_recommendations_def recommended_def KeyError_def
      try_except_def track_ids_def str_strip_def isspace_def search_tracks_def track_items_def
      get_artist_info_def get_artist_info_try_def artist_items_def)

text \<open>
  C4. For every integer \<open>limit\<close>, what \<open>search_tracks\<close> returns is decided by the
  answer of the client to the track search for the query with the limit
  \<open>min(limit, 50)\<close>, and by nothing else of the client: two clients that agree on that
  one call give the same result, and an exception raised by that call is the one
  reported. For \<open>limit = 1000\<close> the call is the one with the limit 50.
\<close>

theorem search_tracks_limit_clamped:
  "(sp_search sp' query ''track'' (min limit 50) = sp_search sp query ''track'' (min limit 50)
      \<longrightarrow> search_tracks sp' query limit = search_tracks sp query limit)
   \<and> (sp_search sp query ''track'' (min limit 50) = Inl e
      \<longrightarrow> fst (search_tracks sp query limit) = except_handler e)
   \<and> (sp_search sp query ''track'' 50 = Inl e
      \<longrightarrow> fst (search_tracks sp query 1000) = except_handler e)
   \<and> snd (search_tracks sp query limit) = [Search query ''track'' (min limit 50)]
   \<and> snd (search_tracks sp query 1000) = [Search query ''track'' 50]"
  by (simp add: search_tracks_def try_except_def)

theorem search_tracks_limit_clamped_witness:
  "sp_search echo_sp ''q'' ''track'' 50 = Inl (OtherException ''search(q, track, 50)'')
   \<and> fst (search_tracks echo_sp ''q'' 1000) = ''Unexpected error: search(q, track, 50)''
   \<and> fst (search_tracks echo_sp ''q'' 7) = ''Unexpected error: search(q, track, 7)''"
  using search_tracks_limit_clamped
          [of echo_sp "''q''" 1000 echo_sp "OtherException ''search(q, track, 50)''"]
        search_tracks_limit_clamped
          [of echo_sp "''q''" 7 echo_sp "OtherException ''search(q, track, 7)''"]
  by (simp add: echo_sp_def str_int_def str_nat.simps digit_def)

text \<open>
  C6. If the client answers the track search for \<open>Bohemian Rhapsody\<close> with limit 1 by
  exactly one track, \<open>search_tracks\<close> returns the header followed by one entry
  numbered \<open>1.\<close>, and the text contains the track's name, each artist's name, the
  album's name, the track id and the URI.
\<close>

theorem search_one_track_report:
  "sp_search sp ''Bohemian Rhapsody'' ''track'' 1 = Inr (Some r)
   \<and> sr_tracks r = Some p \<and> items p = [t]
   \<longrightarrow> fst (search_tracks sp ''Bohemian Rhapsody'' 1)
        = ''Found 1 tracks:\<newline>\<newline>''
          @ ''1. '' @ track_name t @ '' by '' @ str_join '', '' (map artist_name (track_artists t))
          @ ''\<newline>''
          @ ''   Album: '' @ album_name (track_album t) @ ''\<newline>''
          @ ''   Track ID: '' @ track_id t @ ''\<newline>''
          @ ''   URI: '' @ track_uri t @ ''\<newline>''
          @ ''   Preview: '' @ fmt_preview (track_preview_url t) @ ''\<newline>\<newline>''
      \<and> sublist (''1. '' @ track_name t) (fst (search_tracks sp ''Bohemian Rhapsody'' 1))
      \<and> (\<forall>a \<in> set (track_artists t).
            sublist (artist_name a) (fst (search_tracks sp ''Bohemian Rhapsody'' 1)))
      \<and> sublist (album_name (track_album t)) (fst (search_tracks sp ''Bohemian Rhapsody'' 1))
      \<and> sublist (track_id t) (fst (search_tracks sp ''Bohemian Rhapsody'' 1))
      \<and> sublist (track_uri t) (fst (search_tracks sp ''Bohemian Rhapsody'' 1))"
proof
  assume h: "sp_search sp ''Bohemian Rhapsody'' ''track'' 1 = Inr (Some r)
   \<and> sr_tracks r = Some p \<and> items p = [t]"
  let ?out = "fst (search_tracks sp ''Bohemian Rhapsody'' 1)"
  let ?names = "str_join '', '' (map artist_name (track_artists t))"
  have out: "?out = ''Found 1 tracks:\<newline>\<newline>''
          @ ''1. '' @ track_name t @ '' by '' @ ?names
          @ ''\<newline>''
          @ ''   Album: '' @ album_name (track_album t) @ ''\<newline>''
          @ ''   Track ID: '' @ track_id t @ ''\<newline>''
          @ ''   URI: '' @ track_uri t @ ''\<newline>''
          @ ''   Preview: '' @ fmt_preview (track_preview_url t) @ ''\<newline>\<newline>''"
    using h
    by (simp add: search_tracks_def try_except_def track_items_def search_entry_def
        artist_names_def List.enumerate_eq_zip str_nat.simps digit_def)
  have numbered: "sublist (''1. '' @ track_name t) ?out"
    unfolding out sublist_def
    by (rule exI[of _ "''Found 1 tracks:\<newline>\<newline>''"], rule exI) simp
  have names: "sublist ?names ?out"
    unfolding out sublist_def
    by (rule exI[of _ "''Found 1 tracks:\<newline>\<newline>'' @ ''1. '' @ track_name t @ '' by ''"], rule exI) simp
  have artists: "\<forall>a \<in> set (track_artists t). sublist (artist_name a) ?out"
  proof
    fix a assume "a \<in> set (track_artists t)"
    then have "sublist (artist_name a) ?names"
      by (intro sublist_str_join) simp
    then show "sublist (artist_name a) ?out"
      using names by (rule sublist_order.order_trans)
  qed
  have album: "sublist (album_name (track_album t)) ?out"
    unfolding out sublist_def
    by (rule exI[of _ "''Found 1 tracks:\<newline>\<newline>'' @ ''1. '' @ track_name t @ '' by '' @ ?names
          @ ''\<newline>'' @ ''   Album: ''"], rule exI) simp
  have tid: "sublist (track_id t) ?out"
    unfolding out sublist_def
    by (rule exI[of _ "''Found 1 tracks:\<newline>\<newline>'' @ ''1. '' @ track_name t @ '' by '' @ ?names
          @ ''\<newline>'' @ ''   Album: '' @ album_name (track_album t) @ ''\<newline>''
          @ ''   Track ID: ''"], rule exI) simp
  have uri: "sublist (track_uri t) ?out"
    unfolding out sublist_def
    by (rule exI[of _ "''Found 1 tracks:\<newline>\<newline>'' @ ''1. '' @ track_name t @ '' by '' @ ?names
          @ ''\<newline>'' @ ''   Album: '' @ album_name (track_album t) @ ''\<newline>''
          @ ''   Track ID: '' @ track_id t @ ''\<newline>'' @ ''   URI: ''"], rule exI) simp
  show "?out = ''Found 1 tracks:\<newline>\<newline>''
          @ ''1. '' @ track_name t @ '' by '' @ ?names
          @ ''\<newline>''
          @ ''   Album: '' @ album_name (track_album t) @ ''\<newline>''
          @ ''   Track ID: '' @ track_id t @ ''\<newline>''
          @ ''   URI: '' @ track_uri t @ ''\<newline>''
          @ ''   Preview: '' @ fmt_preview (track_preview_url t) @ ''\<newline>\<newline>''
      \<and> sublist (''1. '' @ track_name t) ?out
      \<and> (\<forall>a \<in> set (track_artists t). sublist (artist_name a) ?out)
      \<and> sublist (album_name (track_album t)) ?out
      \<and> sublist (track_id t) ?out
      \<and> sublist (track_uri t) ?out"
    using out numbered artists album tid uri by blast
qed

theorem search_one_track_report_witness:
  "sp_search one_track_sp ''Bohemian Rhapsody'' ''track'' 1
     = Inr (Some \<lparr>sr_tracks = Some \<lparr>items = [bohemian]\<rparr>, sr_artists = None\<rparr>)
   \<and> fst (search_tracks one_track_sp ''Bohemian Rhapsody'' 1)
     = ''Found 1 tracks:\<newline>\<newline>1. Bohemian Rhapsody by Queen\<newline>   Album: A Night At The Opera\<newline>   Track ID: 4u7EnebtmKWzUH433cf5Qv\<newline>   URI: spotify:track:4u7EnebtmKWzUH433cf5Qv\<newline>   Preview: None\<newline>\<newline>''"
  using search_one_track_report [of one_track_sp
      "\<lparr>sr_tracks = Some \<lparr>items = [bohemian]\<rparr>, sr_artists = None\<rparr>" "\<lparr>items = [bohemian]\<rparr>" bohemian]
  by (simp add: one_track_sp_def bohemian_def)

text \<open>
  C9. For every string \<open>seed_track_ids\<close>, what \<open>get_recommendations\<close> returns is
  decided by the answer of the client to the one call whose seeds are the first five of
  the comma-separated pieces, each stripped of surrounding whitespace, with the limit
  \<open>min(limit, 100)\<close>: two clients that agree on that call give the same result, and
  an exception raised by that call is the one reported. The seeds are at most five;
  later pieces are dropped.
\<close>

theorem recommendations_forward_first_five:
  "(sp_recommendations sp' (take 5 (map str_strip (str_split CHR '','' seed_track_ids)))
        (min limit 100)
      = sp_recommendations sp (take 5 (map str_strip (str_split CHR '','' seed_track_ids)))
          (min limit 100)
      \<longrightarrow> get_recommendations sp' seed_track_ids limit
          = get_recommendations sp seed_track_ids limit)
   \<and> (sp_recommendations sp (take 5 (map str_strip (str_split CHR '','' seed_track_ids)))
        (min limit 100) = Inl e
      \<longrightarrow> fst (get_recommendations sp seed_track_ids limit) = except_handler e)
   \<and> snd (get_recommendations sp seed_track_ids limit)
     = [Recommendations (take 5 (map str_strip (str_split CHR '','' seed_track_ids)))
          (min limit 100)]
   \<and> length (take 5 (map str_strip (str_split CHR '','' seed_track_ids))) \<le> 5"
  using track_ids_not_Nil [of seed_track_ids]
  by (simp add: get_recommendations_def track_ids_def try_except_def)

theorem recommendations_forward_first_five_witness:
  "take 5 (map str_strip (str_split CHR '','' ''a, b ,c,d,e,f,g''))
     = [''a'', ''b'', ''c'', ''d'', ''e'']
   \<and> sp_recommendations echo_sp [''a'', ''b'', ''c'', ''d'', ''e''] 100
     = Inl (OtherException ''recommendations(<a><b><c><d><e>, 100)'')
   \<and> fst (get_recommendations echo_sp ''a, b ,c,d,e,f,g'' 200)
     = ''Unexpected error: recommendations(<a><b><c><d><e>, 100)''"
  using recommendations_forward_first_five
          [of echo_sp "''a, b ,c,d,e,f,g''" 200 echo_sp
              "OtherException ''recommendations(<a><b><c><d><e>, 100)''"]
  by (simp add: echo_sp_def str_strip_def isspace_def str_int_def str_nat.simps digit_def)

text \<open>
  C10. Splitting any string on a comma gives at least one piece, so the parsed list of
  track ids is never empty and \<open>get_recommendations\<close> never returns
  \<open>Please provide at least one track ID\<close>. For an empty or whitespace-only input the
  client is called with the single blank seed: the result is decided by the answer of
  the client to that call, and an exception raised by that call is the one reported.
\<close>

theorem seed_prompt_unreachable:
  "str_split CHR '','' seed_track_ids \<noteq> []
   \<and> track_ids seed_track_ids \<noteq> []
   \<and> fst (get_recommendations sp seed_track_ids limit) \<noteq> ''Please provide at least one track ID''
   \<and> ((\<forall>c \<in> set seed_track_ids. isspace c)
        \<longrightarrow> snd (get_recommendations sp seed_track_ids limit)
            = [Recommendations [''''] (min limit 100)]
          \<and> (sp_recommendations sp' [''''] (min limit 100)
                = sp_recommendations sp [''''] (min limit 100)
              \<longrightarrow> get_recommendations sp' seed_track_ids limit
                  = get_recommendations sp seed_track_ids limit)
          \<and> (sp_recommendations sp [''''] (min limit 100) = Inl e
              \<longrightarrow> fst (get_recommendations sp seed_track_ids limit) = except_handler e))"
proof (intro conjI impI)
  show "str_split CHR '','' seed_track_ids \<noteq> []" by (rule str_split_not_Nil)
  show ids: "track_ids seed_track_ids \<noteq> []" by (rule track_ids_not_Nil)
  show "fst (get_recommendations sp seed_track_ids limit) \<noteq> ''Please provide at least one track ID''"
  proof (cases "sp_recommendations sp (track_ids seed_track_ids) (min limit 100)")
    case (Inl e)
    then show ?thesis
      using ids by (simp add: get_recommendations_def try_except_def except_handler_not_prompt)
  next
    case (Inr results)
    then show ?thesis
      using ids
      by (auto simp: get_recommendations_def try_except_def foldl_append_acc
          except_handler_not_prompt split: sum.splits list.splits)
  qed
  show "snd (get_recommendations sp seed_track_ids limit) = [Recommendations [''''] (min limit 100)]"
    if "\<forall>c \<in> set seed_track_ids. isspace c"
    using that by (simp add: get_recommendations_def track_ids_blank)
  show "get_recommendations sp' seed_track_ids limit = get_recommendations sp seed_track_ids limit"
    if "\<forall>c \<in> set seed_track_ids. isspace c"
      and "sp_recommendations sp' [''''] (min limit 100)
             = sp_recommendations sp [''''] (min limit 100)"
    using that by (simp add: get_recommendations_def track_ids_blank)
  show "fst (get_recommendations sp seed_track_ids limit) = except_handler e"
    if "\<forall>c \<in> set seed_track_ids. isspace c"
      and "sp_recommendations sp [''''] (min limit 100) = Inl e"
    using that by (simp add: get_recommendations_def track_ids_blank try_except_def)
qed

theorem seed_prompt_unreachable_witness:
  "list_all isspace ''  ''
   \<and> sp_recommendations echo_sp [''''] 10 = Inl (OtherException ''recommendations(<>, 10)'')
   \<and> fst (get_recommendations echo_sp ''  '' 10) = ''Unexpected error: recommendations(<>, 10)''
   \<and> fst (get_recommendations echo_sp '''' 10) = ''Unexpected error: recommendations(<>, 10)''
   \<and> snd (get_recommendations empty_sp ''  '' 10) = [Recommendations [''''] 10]
   \<and> fst (get_recommendations empty_sp ''  '' 10) = ''No recommendations found for the given tracks''"
  using seed_prompt_unreachable
          [of "''  ''" echo_sp 10 echo_sp "OtherException ''recommendations(<>, 10)''"]
        seed_prompt_unreachable
          [of "''''" echo_sp 10 echo_sp "OtherException ''recommendations(<>, 10)''"]
        seed_prompt_unreachable [of "''  ''" empty_sp 10 empty_sp]
  by (simp add: isspace_def echo_sp_def empty_sp_def get_recommendations_def track_ids_def
      str_strip_def try_except_def recommended_def str_int_def str_nat.simps digit_def)

section \<open>Properties of the client and of the lifespan tutorial\<close>

text \<open>
  C1. The claim is that \<open>MCPToolResponse\<close> can be constructed only with exactly one
  of \<open>content\<close> and \<open>error\<close> populated. The validator checks only the field that
  the flag selects, and does not run on a field left at its default: the constructor
  accepts a successful response that carries both a content and an error, and a
  response given no content and no error at all.
\<close>

theorem response_accepts_both_or_neither:
  "make_MCPToolResponse (Given True) (Given (Some ''ok'')) (Given (Some ''boom''))
     = Inr \<lparr>success = True, content = Some ''ok'', error = Some ''boom''\<rparr>
   \<and> make_MCPToolResponse (Given False) Omitted Omitted
     = Inr \<lparr>success = False, content = None, error = None\<rparr>
   \<and> make_MCPToolResponse Omitted Omitted Omitted
     = Inr \<lparr>success = True, content = None, error = None\<rparr>"
  by (simp add: make_MCPToolResponse_def validate_content_or_error_def)

text \<open>
  C5, as stated, fails: a declared tool that has an entry in \<open>TOOL_SCHEMAS\<close> and a valid
  name is skipped when the \<open>properties\<close> of its input schema is not a dictionary,
  since listing the parameters raises inside the \<open>try\<close> and the handler skips the tool
  as an invalid one. Discovery of the other tools goes on.
\<close>

theorem matched_tool_with_null_properties_skipped:
  "srv_list_tools null_properties_srv = Inr [search_tool, playback_tool, queue_tool]
   \<and> TOOL_SCHEMAS (mt_name playback_tool) = Some SpotifyPlaybackArgs
   \<and> make_MCPToolSchema (mt_name playback_tool) (mt_description playback_tool)
         (PropertiesOther ''NoneType'')
       = Inr \<lparr>name = ''SpotifyPlayback'', description = Some ''Control playback'',
              input_schema = PropertiesOther ''NoneType''\<rparr>
   \<and> (\<exists>found.
         discover_mcp_tools example_config [] null_properties_srv
           = Inr (found, stdio_server_parameters example_config [])
         \<and> map st_name found = [''SpotifySearch'', ''SpotifyQueue'']
         \<and> ''SpotifyPlayback'' \<notin> set (map st_name found))"
  by (simp add: null_properties_srv_def search_tool_def playback_tool_def queue_tool_def
      TOOL_SCHEMAS_def make_MCPToolSchema_def isalnum_def isalnum_char_def
      discover_mcp_tools_def leave_def Let_def)

text \<open>
  C5, amended. When the session lists \<open>tools\<close>, discovery returns tools whose names all
  have an entry in \<open>TOOL_SCHEMAS\<close>, and every declared tool whose name has an entry
  and whose \<open>properties\<close>, if the input schema has any, is a dictionary yields a tool
  of that name, with the schema of the entry and the wrapper made for that name,
  whatever other tools the catalog holds: the names of the result are those of the
  declared tools that have an entry and listable parameters, in the order of the
  catalog. A name with an entry always passes the validation of \<open>MCPToolSchema\<close>
  (lemma \<open>matched_name_validates\<close>).
\<close>

theorem discovery_skips_unmatched_tools:
  "srv_connect srv (stdio_server_parameters server_config environ) = None
   \<and> srv_initialize srv = None \<and> srv_list_tools srv = Inr tools \<and> srv_close srv = None
   \<longrightarrow> (\<exists>found.
          discover_mcp_tools server_config environ srv
            = Inr (found, stdio_server_parameters server_config environ)
          \<and> (\<forall>lt \<in> set found. TOOL_SCHEMAS (st_name lt) \<noteq> None)
          \<and> (\<forall>t \<in> set tools.
                TOOL_SCHEMAS (mt_name t) \<noteq> None
                \<and> (\<forall>ty. mt_inputSchema t \<noteq> Some (PropertiesOther ty))
                \<longrightarrow> (\<exists>lt \<in> set found.
                       st_name lt = mt_name t
                       \<and> TOOL_SCHEMAS (mt_name t) = Some (st_args_schema lt)
                       \<and> st_coroutine lt
                           = make_tool_function (mt_name t)
                               (stdio_server_parameters server_config environ)))
          \<and> map st_name found
              = map mt_name
                  (filter (\<lambda>t. TOOL_SCHEMAS (mt_name t) \<noteq> None
                              \<and> (\<forall>ty. mt_inputSchema t \<noteq> Some (PropertiesOther ty)))
                     tools))"
proof
  let ?params = "stdio_server_parameters server_config environ"
  let ?found = "discover_loop ?params tools :: 'a StructuredTool list"
  let ?listed = "\<lambda>t. \<forall>ty. mt_inputSchema t \<noteq> Some (PropertiesOther ty)"
  assume h: "srv_connect srv ?params = None
   \<and> srv_initialize srv = None \<and> srv_list_tools srv = Inr tools \<and> srv_close srv = None"
  then have run: "discover_mcp_tools server_config environ srv = Inr (?found, ?params)"
    by (simp add: discover_mcp_tools_def leave_def Let_def)
  have listed: "parameters_listable t = ?listed t" for t
    by (cases "mt_inputSchema t"; cases "the (mt_inputSchema t)")
       (simp_all add: parameters_listable_def)
  have names: "map st_name ?found
      = map mt_name (filter (\<lambda>t. TOOL_SCHEMAS (mt_name t) \<noteq> None \<and> ?listed t) tools)"
    using discover_loop_names [of ?params tools] by (simp add: listed)
  have only_matched: "\<forall>lt \<in> set ?found. TOOL_SCHEMAS (st_name lt) \<noteq> None"
    using discover_loop_matched [of _ ?params tools] by auto
  have all_matched: "\<forall>t \<in> set tools. TOOL_SCHEMAS (mt_name t) \<noteq> None \<and> ?listed t
      \<longrightarrow> (\<exists>lt \<in> set ?found. st_name lt = mt_name t
             \<and> TOOL_SCHEMAS (mt_name t) = Some (st_args_schema lt)
             \<and> st_coroutine lt = make_tool_function (mt_name t) ?params)"
  proof (intro ballI impI)
    fix t assume t: "t \<in> set tools" and m: "TOOL_SCHEMAS (mt_name t) \<noteq> None \<and> ?listed t"
    then have "mt_name t \<in> set (map st_name ?found)"
      unfolding names by auto
    then obtain lt where lt: "lt \<in> set ?found" "st_name lt = mt_name t" by auto
    then have "TOOL_SCHEMAS (mt_name t) = Some (st_args_schema lt)
        \<and> st_coroutine lt = make_tool_function (mt_name t) ?params"
      using discover_loop_matched [of lt ?params tools] by simp
    then show "\<exists>lt \<in> set ?found. st_name lt = mt_name t
             \<and> TOOL_SCHEMAS (mt_name t) = Some (st_args_schema lt)
             \<and> st_coroutine lt = make_tool_function (mt_name t) ?params"
      using lt by blast
  qed
  show "\<exists>found. discover_mcp_tools server_config environ srv = Inr (found, ?params)
          \<and> (\<forall>lt \<in> set found. TOOL_SCHEMAS (st_name lt) \<noteq> None)
          \<and> (\<forall>t \<in> set tools.
                TOOL_SCHEMAS (mt_name t) \<noteq> None \<and> ?listed t
                \<longrightarrow> (\<exists>lt \<in> set found.
                       st_name lt = mt_name t
                       \<and> TOOL_SCHEMAS (mt_name t) = Some (st_args_schema lt)
                       \<and> st_coroutine lt = make_tool_function (mt_name t) ?params))
          \<and> map st_name found
              = map mt_name
                  (filter (\<lambda>t. TOOL_SCHEMAS (mt_name t) \<noteq> None \<and> ?listed t) tools)"
    using run names only_matched all_matched by blast
qed

theorem discovery_skips_unmatched_tools_witness:
  "srv_list_tools catalog_srv = Inr [search_tool, lyrics_tool, queue_tool]
   \<and> TOOL_SCHEMAS (mt_name lyrics_tool) = None
   \<and> (\<exists>found.
         discover_mcp_tools example_config [] catalog_srv
           = Inr (found, stdio_server_parameters example_config [])
         \<and> map st_name found = [''SpotifySearch'', ''SpotifyQueue''])"
  using discovery_skips_unmatched_tools
          [of catalog_srv example_config "[]" "[search_tool, lyrics_tool, queue_tool]"]
  by (auto simp: catalog_srv_def search_tool_def lyrics_tool_def queue_tool_def TOOL_SCHEMAS_def)

text \<open>
  C7. The claim is that the wrapper of a matched tool returns a string for any keyword
  arguments. When the connection fails with an exception whose \<open>str\<close> is empty, the
  handler of \<open>call_mcp_tool\<close> builds \<open>MCPToolResponse(success=False, error="")\<close>, the
  validator rejects it, and the validation error leaves \<open>call_mcp_tool\<close> and the
  wrapper: the wrapper of \<open>SpotifySearch\<close> raises instead of returning a string
  that starts with \<open>Error: \<close>.
\<close>

theorem wrapper_raises_on_silent_failure:
  "map (\<lambda>lt. st_coroutine lt silent_failure_srv [(''query'', ())])
       (discover_loop (stdio_server_parameters example_config []) [search_tool])
     = [(Inl (ValidationError ''Failed response must have error message''),
         [Connect (stdio_server_parameters example_config [])])]"
  by (simp add: search_tool_def make_MCPToolSchema_def isalnum_def isalnum_char_def
      TOOL_SCHEMAS_def make_tool_function_def call_tool_wrapper_def make_MCPToolCall_def
      str_strip_def isspace_def call_mcp_tool_def call_mcp_tool_try_def silent_failure_srv_def
      make_MCPToolResponse_def validate_content_or_error_def)

text \<open>
  C8. Whatever serving does and however it ends, normally or with an exception, the
  events of the lifespan are the connect, then those of serving, then the disconnect:
  the database is connected once, before serving, and disconnected once, after it, and
  the way serving ended is passed on unchanged.
\<close>

theorem lifespan_releases_database:
  "snd (app_lifespan serve)
     = [DbConnect] @ map Serving (snd (serve \<lparr>db = Database\<rparr>)) @ [DbDisconnect]
   \<and> fst (app_lifespan serve) = fst (serve \<lparr>db = Database\<rparr>)
   \<and> hd (snd (app_lifespan serve)) = DbConnect
   \<and> last (snd (app_lifespan serve)) = DbDisconnect
   \<and> length (filter (\<lambda>ev. ev = DbDisconnect) (snd (app_lifespan serve))) = 1
   \<and> length (filter (\<lambda>ev. ev = DbConnect) (snd (app_lifespan serve))) = 1"
proof -
  obtain r served where s: "serve \<lparr>db = Database\<rparr> = (r, served)"
    by (cases "serve \<lparr>db = Database\<rparr>")
  have no_disc: "filter (\<lambda>ev. ev = DbDisconnect) (map Serving served) = []"
    by (induction served) simp_all
  have no_conn: "filter (\<lambda>ev. ev = DbConnect) (map Serving served) = []"
    by (induction served) simp_all
  show ?thesis
    using s no_disc no_conn by (cases r) (simp_all add: app_lifespan_def)
qed

lemma lifespan_example_shutdown:
  "app_lifespan (\<lambda>ctx. (None :: string option, [query_db ctx, query_db ctx]))
     = (None, [DbConnect, Serving ''Query result'', Serving ''Query result'', DbDisconnect])"
  by (simp add: app_lifespan_def query_db_def Database_query_def)

lemma lifespan_example_crash:
  "app_lifespan (\<lambda>ctx. (Some ''boom'', [query_db ctx]))
     = (Some ''boom'', [DbConnect, Serving ''Query result'', DbDisconnect])"
  by (simp add: app_lifespan_def query_db_def Database_query_def)

end
